theory Spec2Isabelle
  imports Main "HOL-Library.Sublist"
begin

section \<open>Values shared by the code generator and the dev command\<close>

text \<open>
  Paths, file contents and messages are byte strings. A JavaScript value that may be
  \<open>undefined\<close> is an option; the only numbers the code handles are ports.
\<close>

type_synonym path = string

datatype error = Error string

fun message :: "error \<Rightarrow> string" where
  "message (Error m) = m"

definition sq :: string where
  "sq = [CHR 0x27]"

definition dq :: string where
  "dq = [CHR 0x22]"

definition nl :: string where
  "nl = [CHR 0x0A]"

text \<open>JavaScript truthiness of an optional string: \<open>undefined\<close> and the empty string are falsy.\<close>

fun truthy :: "string option \<Rightarrow> bool" where
  "truthy None = False"
| "truthy (Some s) = (s \<noteq> [])"

text \<open>
  Truthiness of the optional port number. \<open>undefined\<close>, \<open>0\<close> and \<open>NaN\<close> are falsy
  and the code never reads a falsy port, so \<open>NaN\<close> is represented by \<open>None\<close>.
\<close>

fun truthy_port :: "int option \<Rightarrow> bool" where
  "truthy_port None = False"
| "truthy_port (Some n) = (n \<noteq> 0)"

text \<open>\<open>a || b\<close> on an optional string and a string: the first operand when it is truthy.\<close>

fun js_or :: "string option \<Rightarrow> string \<Rightarrow> string" where
  "js_or None d = d"
| "js_or (Some s) d = (if s \<noteq> [] then s else d)"

text \<open>
  A value inside a template literal: \<open>undefined\<close> prints as the word. The optional
  values of the model are a string or \<open>undefined\<close>; \<open>null\<close>, which a template literal
  prints as its own word, is not among them.
\<close>

fun template :: "string option \<Rightarrow> string" where
  "template None = ''undefined''"
| "template (Some s) = s"

text \<open>
  Decimal rendering of an integer, as a template literal prints an integral number below
  \<open>10\<^sup>2\<^sup>1\<close>. Ports are such numbers; a larger one, which JavaScript prints with an
  exponent, and a fraction are outside the model.
\<close>

definition digit_char :: "nat \<Rightarrow> char" where
  "digit_char d = char_of (48 + d)"

fun string_of_nat :: "nat \<Rightarrow> string" where
  "string_of_nat n =
     (if n < 10 then [digit_char n] else string_of_nat (n div 10) @ [digit_char (n mod 10)])"

declare string_of_nat.simps [simp del]

definition string_of_int :: "int \<Rightarrow> string" where
  "string_of_int i = (if i < 0 then ''-'' @ string_of_nat (nat (- i)) else string_of_nat (nat i))"

text \<open>\<open>Array.prototype.join\<close> on an array of strings.\<close>

fun join :: "string \<Rightarrow> string list \<Rightarrow> string" where
  "join sep [] = []"
| "join sep [x] = x"
| "join sep (x # y # ys) = x @ sep @ join sep (y # ys)"

text \<open>\<open>String.prototype.includes\<close>: the argument occurs as a contiguous run.\<close>

definition includes_str :: "string \<Rightarrow> string \<Rightarrow> bool" where
  "includes_str s sub = sublist sub s"

section \<open>The code generator (codegen/index.ts)\<close>

subsection \<open>Configuration, as far as the generator reads it\<close>

text \<open>
  The configuration object is the one \<open>processConfig\<close> has loaded; the generator is only
  built after that. \<open>tinaioContentApiUrlOverride\<close> is
  \<open>config.tinaioConfig?.contentApiUrlOverride\<close>, which is \<open>undefined\<close> as well when
  \<open>tinaioConfig\<close> is.
\<close>

record config =
  branch :: "string option"
  clientId :: "string option"
  token :: "string option"
  contentApiUrlOverride :: "string option"
  tinaioContentApiUrlOverride :: "string option"

text \<open>
  The fields and getters of \<open>ConfigManager\<close> that the two source files use. The class
  itself is outside the two files, so its paths and flags are parameters.
\<close>

record configManager =
  config :: config
  tinaGraphQLVersion :: string
  isUsingTs :: bool
  isUsingLegacyFolder :: bool
  tinaFolderPath :: path
  generatedClientJSFilePath :: path
  generatedTypesDFilePath :: path
  generatedTypesJSFilePath :: path
  generatedTypesTSFilePath :: path
  generatedClientTSFilePath :: path
  generatedQueriesFilePath :: path
  generatedFragmentsFilePath :: path
  generatedGraphQLGQLPath :: path
  generatedSchemaJSONPath :: path
  generatedLookupJSONPath :: path
  generatedGraphQLJSONPath :: path
  userQueriesAndFragmentsGlob :: string
  generatedQueriesAndFragmentsGlob :: string

type_synonym graphQLSchema = string

record codegen =
  configManager :: configManager
  port :: "int option"
  schema :: graphQLSchema
  queryDoc :: string
  fragDoc :: string
  noSDK :: bool

subsection \<open>Disk and console\<close>

datatype console_line = Warn string | Log string

record world =
  disk :: "path \<rightharpoonup> string"
  console :: "console_line list"

text \<open>
  The disk maps a path to the bytes of the file there. \<open>fs.outputFile\<close> leaves the file
  with the given content and \<open>unlinkIfExists\<close> removes it when it is there; failures of
  the file system itself (permissions, a full disk) are outside the model.
\<close>

definition outputFile :: "path \<Rightarrow> string \<Rightarrow> world \<Rightarrow> world" where
  "outputFile p c w = w\<lparr>disk := (disk w)(p \<mapsto> c)\<rparr>"

definition unlinkIfExists :: "path \<Rightarrow> world \<Rightarrow> world" where
  "unlinkIfExists p w = (if p \<in> dom (disk w) then w\<lparr>disk := (disk w)(p := None)\<rparr> else w)"

text \<open>
  The external generators: \<open>generateTypes\<close> of \<open>./codegen\<close>, \<open>printSchema\<close> of graphql
  and \<open>transform\<close> of esbuild. Each may throw. Type generation is handed two globs and
  reads the documents they match, so beside the four arguments of the source it receives
  the disk as it is at the time of the call.
\<close>

record generators =
  generateTypes :: "graphQLSchema \<Rightarrow> string \<Rightarrow> string \<Rightarrow> string \<Rightarrow> (path \<rightharpoonup> string) \<Rightarrow> error + string"
  printSchema :: "graphQLSchema \<Rightarrow> error + string"
  transform :: "string \<Rightarrow> error + string"

subsection \<open>API URL resolution\<close>

definition TINA_HOST :: string where
  "TINA_HOST = ''content.tinajs.io''"

definition missing_fields :: "config \<Rightarrow> string list" where
  "missing_fields c =
     (let missing = [];
          missing = (if \<not> truthy (branch c) then missing @ [''branch''] else missing);
          missing = (if \<not> truthy (clientId c) then missing @ [''clientId''] else missing);
          missing = (if \<not> truthy (token c) then missing @ [''token''] else missing)
      in missing)"

definition not_configured :: "string list \<Rightarrow> string" where
  "not_configured missing =
     ''Client not configured properly. Missing '' @ join '', '' missing @
     ''. Please visit https://tina.io/docs/tina-cloud/connecting-site/ for more information''"

definition getApiURL :: "codegen \<Rightarrow> error + string" where
  "getApiURL cg =
     (let c = config (configManager cg);
          version = tinaGraphQLVersion (configManager cg);
          baseUrl = js_or (tinaioContentApiUrlOverride c) (''https://'' @ TINA_HOST)
      in if (\<not> truthy (branch c) \<or> \<not> truthy (clientId c) \<or> \<not> truthy (token c))
            \<and> \<not> truthy_port (port cg) \<and> \<not> truthy (contentApiUrlOverride c)
         then Inl (Error (not_configured (missing_fields c)))
         else
           let remote = baseUrl @ ''/'' @ version @ ''/content/'' @ template (clientId c)
                        @ ''/github/'' @ template (branch c);
               apiURL = (case port cg of
                           None \<Rightarrow> remote
                         | Some n \<Rightarrow>
                             if n \<noteq> 0
                             then ''http://localhost:'' @ string_of_int n @ ''/graphql''
                             else remote)
           in Inr (js_or (contentApiUrlOverride c) apiURL))"

subsection \<open>Client and type code\<close>

definition client_code :: "string \<Rightarrow> string option \<Rightarrow> string" where
  "client_code apiURL tok =
     ''import { createClient } from '' @ dq @ ''tinacms/dist/client'' @ dq @ '';'' @ nl @
     ''import { queries } from '' @ dq @ ''./types'' @ dq @ '';'' @ nl @
     ''export const client = createClient({ url: '' @ sq @ apiURL @ sq @
     '', token: '' @ sq @ template tok @ sq @ '', queries });'' @ nl @
     ''export default client;'' @ nl @ ''  ''"

definition genClient :: "codegen \<Rightarrow> error + (string \<times> string)" where
  "genClient cg =
     (let tok = token (config (configManager cg))
      in case getApiURL cg of
           Inl e \<Rightarrow> Inl e
         | Inr apiURL \<Rightarrow> Inr (apiURL, client_code apiURL tok))"

definition types_code :: "string \<Rightarrow> string" where
  "types_code typescriptTypes =
     ''//@ts-nocheck'' @ nl @
     ''  // DO NOT MODIFY THIS FILE. This file is automatically generated by Tina'' @ nl @
     ''  export function gql(strings: TemplateStringsArray, ...args: string[]): string {'' @ nl @
     ''    let str = '' @ sq @ sq @ nl @
     ''    strings.forEach((string, i) => {'' @ nl @
     ''      str += string + (args[i] || '' @ sq @ sq @ '')'' @ nl @
     ''    })'' @ nl @
     ''    return str'' @ nl @
     ''  }'' @ nl @
     ''  '' @ typescriptTypes @ nl @ ''  ''"

definition schema_doc :: "string \<Rightarrow> string" where
  "schema_doc printed =
     ''# DO NOT MODIFY THIS FILE. This file is automatically generated by Tina'' @ nl @
     printed @ nl @
     ''schema {'' @ nl @ ''  query: Query'' @ nl @ ''  mutation: Mutation'' @ nl @ ''}'' @ nl"

definition genTypes :: "generators \<Rightarrow> codegen \<Rightarrow> world \<Rightarrow> error + (string \<times> string)" where
  "genTypes g cg w =
     (case getApiURL cg of
        Inl e \<Rightarrow> Inl e
      | Inr apiURL \<Rightarrow>
          (case generateTypes g (schema cg)
                  (userQueriesAndFragmentsGlob (configManager cg))
                  (generatedQueriesAndFragmentsGlob (configManager cg)) apiURL (disk w) of
             Inl e \<Rightarrow> Inl e
           | Inr typescriptTypes \<Rightarrow>
               (case printSchema g (schema cg) of
                  Inl e \<Rightarrow> Inl e
                | Inr printed \<Rightarrow> Inr (types_code typescriptTypes, schema_doc printed))))"

subsection \<open>The fragment size check\<close>

definition fragment_warning :: string where
  "fragment_warning =
     ''Warning: frags.gql is very large (>100kb). Consider setting the reference depth to 1 or 0. See code snippet below.''"

definition fragment_snippet :: string where
  "fragment_snippet =
     ''const schema = defineSchema({'' @ nl @
     ''        config: {'' @ nl @
     ''            client: {'' @ nl @
     ''                referenceDepth: 1,'' @ nl @
     ''            },'' @ nl @
     ''        }'' @ nl @
     ''        // ...'' @ nl @
     ''    })''"

text \<open>\<open>fs.stat\<close> throws when the file is missing; the size of a file is its length in bytes.\<close>

definition maybeWarnFragmentSize :: "path \<Rightarrow> world \<Rightarrow> (error + unit) \<times> world" where
  "maybeWarnFragmentSize filepath w =
     (case disk w filepath of
        None \<Rightarrow> (Inl (Error (''ENOENT: no such file or directory, stat '' @ sq @ filepath @ sq)), w)
      | Some content \<Rightarrow>
          if length content > 100 * 1024
          then (Inr (), w\<lparr>console := console w @ [Warn fragment_warning, Log fragment_snippet]\<rparr>)
          else (Inr (), w))"

subsection \<open>Removing and writing the generated files\<close>

definition removeGeneratedFilesIfExists :: "configManager \<Rightarrow> world \<Rightarrow> world" where
  "removeGeneratedFilesIfExists cm w =
     (let w = unlinkIfExists (generatedClientJSFilePath cm) w;
          w = unlinkIfExists (generatedTypesDFilePath cm) w;
          w = unlinkIfExists (generatedTypesJSFilePath cm) w;
          w = unlinkIfExists (generatedTypesTSFilePath cm) w;
          w = unlinkIfExists (generatedClientTSFilePath cm) w;
          w = unlinkIfExists (generatedQueriesFilePath cm) w;
          w = unlinkIfExists (generatedFragmentsFilePath cm) w
      in w)"

definition write_typed :: "configManager \<Rightarrow> string \<Rightarrow> string \<Rightarrow> world \<Rightarrow> world" where
  "write_typed cm codeString clientString w =
     (let w = outputFile (generatedTypesTSFilePath cm) codeString w;
          w = outputFile (generatedClientTSFilePath cm) clientString w;
          w = unlinkIfExists (generatedClientJSFilePath cm) w;
          w = unlinkIfExists (generatedTypesDFilePath cm) w;
          w = unlinkIfExists (generatedTypesJSFilePath cm) w
      in w)"

definition write_runtime ::
  "generators \<Rightarrow> configManager \<Rightarrow> string \<Rightarrow> string \<Rightarrow> world \<Rightarrow> (error + unit) \<times> world" where
  "write_runtime g cm codeString clientString w =
     (let w = outputFile (generatedTypesDFilePath cm) codeString w
      in case transform g codeString of
           Inl e \<Rightarrow> (Inl e, w)
         | Inr jsCode \<Rightarrow>
             (let w = outputFile (generatedTypesJSFilePath cm) jsCode w;
                  w = outputFile (generatedClientJSFilePath cm) clientString w;
                  w = unlinkIfExists (generatedTypesTSFilePath cm) w;
                  w = unlinkIfExists (generatedClientTSFilePath cm) w
              in (Inr (), w)))"

definition execute :: "generators \<Rightarrow> codegen \<Rightarrow> world \<Rightarrow> (error + string) \<times> world" where
  "execute g cg w =
     (let cm = configManager cg
      in case getApiURL cg of
           Inl e \<Rightarrow> (Inl e, w)
         | Inr apiURL \<Rightarrow>
             if noSDK cg then (Inr apiURL, removeGeneratedFilesIfExists cm w)
             else
              (let w = outputFile (generatedQueriesFilePath cm) (queryDoc cg) w;
                   w = outputFile (generatedFragmentsFilePath cm) (fragDoc cg) w;
                   checked = maybeWarnFragmentSize (generatedFragmentsFilePath cm) w;
                   w = snd checked
               in (case fst checked of
                    Inl e \<Rightarrow> (Inl e, w)
                  | Inr u \<Rightarrow>
                      (case genClient cg of
                         Inl e \<Rightarrow> (Inl e, w)
                       | Inr client \<Rightarrow>
                           (case genTypes g cg w of
                              Inl e \<Rightarrow> (Inl e, w)
                            | Inr types \<Rightarrow>
                                (let clientString = snd client;
                                     codeString = fst types;
                                     schemaString = snd types;
                                     w = outputFile (generatedGraphQLGQLPath cm) schemaString w
                                 in if isUsingTs cm
                                    then (Inr apiURL, write_typed cm codeString clientString w)
                                    else
                                     (let written = write_runtime g cm codeString clientString w
                                      in (case fst written of
                                            Inl e \<Rightarrow> (Inl e, snd written)
                                          | Inr u \<Rightarrow> (Inr apiURL, snd written)))))))))"

section \<open>The dev command (commands/dev-command/index.ts)\<close>

subsection \<open>Collaborators, options and the session\<close>

type_synonym database = string
type_synonym tinaSchema = string

record built =
  built_tinaSchema :: tinaSchema
  built_graphQLSchema :: graphQLSchema
  built_queryDoc :: string
  built_fragDoc :: string

text \<open>
  What the dev command imports and calls. \<open>processConfig\<close> yields the configuration
  manager as it stands after loading, or throws; \<open>requireJSON\<close> is \<open>require\<close> of a
  generated JSON module after its cache entry is deleted, giving the object as
  \<open>JSON.stringify\<close> prints it; \<open>pathJoin\<close> is \<open>path.join\<close>.
\<close>

record collaborators =
  processConfig :: "error + configManager"
  createAndInitializeDatabase :: "configManager \<Rightarrow> error + database"
  buildSchema :: "database \<Rightarrow> config \<Rightarrow> error + built"
  requireJSON :: "path \<Rightarrow> error + string"
  getASTSchema :: "database \<Rightarrow> error + graphQLSchema"
  indexContent :: "database \<Rightarrow> tinaSchema \<Rightarrow> graphQLSchema \<Rightarrow> error + unit"
  pathJoin :: "path \<Rightarrow> path \<Rightarrow> path"
  gens :: generators

text \<open>The options of the command that the reconcile reads; \<open>portNumber\<close> is
  \<open>Number(this.port)\<close>.\<close>

record command =
  portNumber :: "int option"
  verbose :: bool
  noWatch :: bool
  cmd_noSDK :: bool

datatype step =
  ProcessConfig | CreateDatabase | BuildSchema | PersistLock | GetASTSchema
  | CodegenExecute | WatchQueries | IndexContent

datatype log_line = LoggerError string | LoggerInfo string | ConsoleError error

record session =
  files :: world
  trace :: "step list"
  logger :: "log_line list"
  exited :: "nat option"

text \<open>How a call of \<open>setup\<close> ends: it returns, it throws (the step that threw is kept
  beside the error, for the statements about ordering), or \<open>process.exit\<close> ends the process.\<close>

datatype 'a outcome = Returned 'a | Thrown step error | Exited nat

definition began :: "step \<Rightarrow> session \<Rightarrow> session" where
  "began st s = s\<lparr>trace := trace s @ [st]\<rparr>"

subsection \<open>The full reconcile, \<open>setup\<close> in the source\<close>

definition lock_json :: "string \<Rightarrow> string \<Rightarrow> string \<Rightarrow> string" where
  "lock_json schemaObject lookupObject graphqlSchemaObject =
     ''{'' @ dq @ ''schema'' @ dq @ '':'' @ schemaObject @
     '','' @ dq @ ''lookup'' @ dq @ '':'' @ lookupObject @
     '','' @ dq @ ''graphql'' @ dq @ '':'' @ graphqlSchemaObject @ ''}''"

definition persist_lock :: "collaborators \<Rightarrow> configManager \<Rightarrow> session \<Rightarrow> (error + unit) \<times> session" where
  "persist_lock x cm s =
     (if \<not> isUsingLegacyFolder cm then
        (let s = began PersistLock s
         in case requireJSON x (generatedSchemaJSONPath cm) of
              Inl e \<Rightarrow> (Inl e, s)
            | Inr schemaObject \<Rightarrow>
                (case requireJSON x (generatedLookupJSONPath cm) of
                   Inl e \<Rightarrow> (Inl e, s)
                 | Inr lookupObject \<Rightarrow>
                     (case requireJSON x (generatedGraphQLJSONPath cm) of
                        Inl e \<Rightarrow> (Inl e, s)
                      | Inr graphqlSchemaObject \<Rightarrow>
                          (Inr (), s\<lparr>files :=
                             outputFile (pathJoin x (tinaFolderPath cm) ''tina-lock.json'')
                               (lock_json schemaObject lookupObject graphqlSchemaObject)
                               (files s)\<rparr>))))
      else (Inr (), s))"

definition config_failure :: "command \<Rightarrow> error \<Rightarrow> log_line list" where
  "config_failure cmd e =
     [LoggerError ''Unable to start dev server, please fix your Tina config and try again'',
      LoggerError (message e)] @ (if verbose cmd then [ConsoleError e] else [])"

definition run_codegen ::
  "collaborators \<Rightarrow> command \<Rightarrow> configManager \<Rightarrow> database \<Rightarrow> built \<Rightarrow> session
     \<Rightarrow> (string \<times> database) outcome \<times> session" where
  "run_codegen x cmd cm db b s =
     (let s = began GetASTSchema s
      in case getASTSchema x db of
           Inl e \<Rightarrow> (Thrown GetASTSchema e, s)
         | Inr sch \<Rightarrow>
             (let cg = \<lparr>configManager = cm, port = portNumber cmd, schema = sch,
                        queryDoc = built_queryDoc b, fragDoc = built_fragDoc b,
                        noSDK = cmd_noSDK cmd\<rparr>;
                  s = began CodegenExecute s;
                  r = execute (gens x) cg (files s);
                  s = s\<lparr>files := snd r\<rparr>
              in case fst r of
                   Inl e \<Rightarrow> (Thrown CodegenExecute e, s)
                 | Inr apiURL \<Rightarrow>
                     (let s = (if \<not> noWatch cmd then began WatchQueries s else s);
                          s = began IndexContent s
                      in case indexContent x db (built_tinaSchema b) (built_graphQLSchema b) of
                           Inl e \<Rightarrow> (Thrown IndexContent e, s)
                         | Inr u \<Rightarrow> (Returned (apiURL, db), s))))"

definition setup_dev :: "collaborators \<Rightarrow> command \<Rightarrow> session \<Rightarrow> (string \<times> database) outcome \<times> session" where
  "setup_dev x cmd s =
     (let s = began ProcessConfig s
      in case processConfig x of
           Inl e \<Rightarrow> (Exited 1, s\<lparr>logger := logger s @ config_failure cmd e, exited := Some 1\<rparr>)
         | Inr cm \<Rightarrow>
             (let s = began CreateDatabase s
              in case createAndInitializeDatabase x cm of
                   Inl e \<Rightarrow> (Thrown CreateDatabase e, s)
                 | Inr db \<Rightarrow>
                     (let s = began BuildSchema s
                      in case buildSchema x db (config cm) of
                           Inl e \<Rightarrow> (Thrown BuildSchema e, s)
                         | Inr b \<Rightarrow>
                             (let r = persist_lock x cm s
                              in case fst r of
                                   Inl e \<Rightarrow> (Thrown PersistLock e, snd r)
                                 | Inr u \<Rightarrow> run_codegen x cmd cm db b (snd r)))))"

subsection \<open>The change handler of the server watcher\<close>

definition generated_marker :: "path \<Rightarrow> bool" where
  "generated_marker changedPath =
     (includes_str changedPath ''__generated__''
      \<or> includes_str changedPath ''@tinacms/app''
      \<or> includes_str changedPath ''tinacms/dist'')"

definition on_server_change :: "collaborators \<Rightarrow> command \<Rightarrow> path \<Rightarrow> session \<Rightarrow> session" where
  "on_server_change x cmd changedPath s =
     (if includes_str changedPath ''__generated__'' then s
      else if includes_str changedPath ''@tinacms/app'' then s
      else if includes_str changedPath ''tinacms/dist'' then s
      else
        let r = setup_dev x cmd s;
            s = snd r
        in case fst r of
             Returned v \<Rightarrow> s\<lparr>logger := logger s @ [LoggerInfo ''Tina config updated'']\<rparr>
           | Thrown st e \<Rightarrow> s\<lparr>logger := logger s @ [LoggerError (message e)]\<rparr>
           | Exited n \<Rightarrow> s)"

subsection \<open>The content and query watchers\<close>

datatype fs_event = Ready | Add path | Change path | Unlink path

datatype call = IndexContentByPaths "path list" | DeleteContentByPaths "path list" | Callback

text \<open>
  A watcher is its \<open>ready\<close> flag and the calls its handlers have made so far.
  \<open>rel\<close> is \<open>configManager.printContentRelativePath\<close>; \<open>Callback\<close> is the call of the
  function handed to \<open>watchQueries\<close>, which \<open>setup\<close> binds to \<open>codegen.execute()\<close>.
\<close>

record watcher =
  ready :: bool
  calls :: "call list"

fun watchContentFiles_on :: "(path \<Rightarrow> path) \<Rightarrow> fs_event \<Rightarrow> watcher \<Rightarrow> watcher" where
  "watchContentFiles_on rel Ready wt = wt\<lparr>ready := True\<rparr>"
| "watchContentFiles_on rel (Add addedFile) wt =
     (if \<not> ready wt then wt
      else wt\<lparr>calls := calls wt @ [IndexContentByPaths [rel addedFile]]\<rparr>)"
| "watchContentFiles_on rel (Change changedFile) wt =
     wt\<lparr>calls := calls wt @ [IndexContentByPaths [rel changedFile]]\<rparr>"
| "watchContentFiles_on rel (Unlink removedFile) wt =
     wt\<lparr>calls := calls wt @ [DeleteContentByPaths [rel removedFile]]\<rparr>"

fun watchQueries_on :: "fs_event \<Rightarrow> watcher \<Rightarrow> watcher" where
  "watchQueries_on Ready wt = wt\<lparr>ready := True\<rparr>"
| "watchQueries_on (Add addedFile) wt = wt\<lparr>calls := calls wt @ [Callback]\<rparr>"
| "watchQueries_on (Change changedFile) wt = wt\<lparr>calls := calls wt @ [Callback]\<rparr>"
| "watchQueries_on (Unlink removedFile) wt = wt\<lparr>calls := calls wt @ [Callback]\<rparr>"

text \<open>Both watchers start with \<open>ready = false\<close>; events are handled in the order delivered.\<close>

definition new_watcher :: watcher where
  "new_watcher = \<lparr>ready = False, calls = []\<rparr>"

definition deliver :: "(fs_event \<Rightarrow> watcher \<Rightarrow> watcher) \<Rightarrow> fs_event list \<Rightarrow> watcher \<Rightarrow> watcher" where
  "deliver handler events wt = fold handler events wt"

section \<open>Notions used in the statements\<close>

subsection \<open>The generated files and what a run leaves on disk\<close>

definition generated_paths :: "configManager \<Rightarrow> path list" where
  "generated_paths cm =
     [generatedClientJSFilePath cm, generatedTypesDFilePath cm, generatedTypesJSFilePath cm,
      generatedTypesTSFilePath cm, generatedClientTSFilePath cm,
      generatedQueriesFilePath cm, generatedFragmentsFilePath cm, generatedGraphQLGQLPath cm]"

text \<open>The seven files that \<open>removeGeneratedFilesIfExists\<close> unlinks, in its order.\<close>

definition removed_paths :: "configManager \<Rightarrow> path list" where
  "removed_paths cm =
     [generatedClientJSFilePath cm, generatedTypesDFilePath cm, generatedTypesJSFilePath cm,
      generatedTypesTSFilePath cm, generatedClientTSFilePath cm,
      generatedQueriesFilePath cm, generatedFragmentsFilePath cm]"


definition docs_written :: "codegen \<Rightarrow> (path \<rightharpoonup> string) \<Rightarrow> (path \<rightharpoonup> string)" where
  "docs_written cg d =
     d(generatedQueriesFilePath (configManager cg) \<mapsto> queryDoc cg,
       generatedFragmentsFilePath (configManager cg) \<mapsto> fragDoc cg)"

definition typed_written ::
  "configManager \<Rightarrow> string \<Rightarrow> string \<Rightarrow> string \<Rightarrow> (path \<rightharpoonup> string) \<Rightarrow> (path \<rightharpoonup> string)" where
  "typed_written cm schemaString codeString clientString d =
     d(generatedGraphQLGQLPath cm \<mapsto> schemaString,
       generatedTypesTSFilePath cm \<mapsto> codeString,
       generatedClientTSFilePath cm \<mapsto> clientString,
       generatedClientJSFilePath cm := None,
       generatedTypesDFilePath cm := None,
       generatedTypesJSFilePath cm := None)"

definition runtime_written ::
  "configManager \<Rightarrow> string \<Rightarrow> string \<Rightarrow> string \<Rightarrow> string \<Rightarrow> (path \<rightharpoonup> string)
     \<Rightarrow> (path \<rightharpoonup> string)" where
  "runtime_written cm schemaString codeString jsCode clientString d =
     d(generatedGraphQLGQLPath cm \<mapsto> schemaString,
       generatedTypesDFilePath cm \<mapsto> codeString,
       generatedTypesJSFilePath cm \<mapsto> jsCode,
       generatedClientJSFilePath cm \<mapsto> clientString,
       generatedTypesTSFilePath cm := None,
       generatedClientTSFilePath cm := None)"

text \<open>The call of \<open>generateTypes\<close> that \<open>genTypes\<close> makes, on a given disk.\<close>

definition types_generated :: "generators \<Rightarrow> codegen \<Rightarrow> string \<Rightarrow> (path \<rightharpoonup> string) \<Rightarrow> error + string" where
  "types_generated g cg apiURL d =
     generateTypes g (schema cg) (userQueriesAndFragmentsGlob (configManager cg))
       (generatedQueriesAndFragmentsGlob (configManager cg)) apiURL d"




definition advisory :: "string \<Rightarrow> console_line list" where
  "advisory fragments =
     (if length fragments > 100 * 1024 then [Warn fragment_warning, Log fragment_snippet] else [])"

subsection \<open>The order of a reconcile\<close>

text \<open>The steps of \<open>setup\<close> in the order the source runs them.\<close>

definition reconcile_steps :: "bool \<Rightarrow> bool \<Rightarrow> step list" where
  "reconcile_steps legacy nowatch =
     [ProcessConfig, CreateDatabase, BuildSchema] @ (if legacy then [] else [PersistLock])
     @ [GetASTSchema, CodegenExecute] @ (if nowatch then [] else [WatchQueries])
     @ [IndexContent]"

definition steps_until :: "step \<Rightarrow> step list \<Rightarrow> step list" where
  "steps_until st steps = takeWhile (\<lambda>y. y \<noteq> st) steps @ [st]"

text \<open>\<open>a\<close> occurs in the list and \<open>b\<close> occurs somewhere after its first occurrence.\<close>

definition runs_before :: "step \<Rightarrow> step \<Rightarrow> step list \<Rightarrow> bool" where
  "runs_before a b steps = (b \<in> set (dropWhile (\<lambda>y. y \<noteq> a) steps) \<and> a \<noteq> b)"

definition is_add :: "fs_event \<Rightarrow> bool" where
  "is_add e = (case e of Add p \<Rightarrow> True | _ \<Rightarrow> False)"

subsection \<open>Paths a run touches, and the lock file\<close>




section \<open>A sample project\<close>

definition example_config :: config where
  "example_config =
     \<lparr>branch = Some ''main'', clientId = Some ''abc123'', token = Some ''s3cret'',
      contentApiUrlOverride = None, tinaioContentApiUrlOverride = None\<rparr>"

definition unconfigured :: config where
  "unconfigured =
     \<lparr>branch = None, clientId = Some ''abc123'', token = Some [],
      contentApiUrlOverride = None, tinaioContentApiUrlOverride = None\<rparr>"

definition example_manager :: configManager where
  "example_manager =
     \<lparr>config = example_config, tinaGraphQLVersion = ''1.4'', isUsingTs = True,
      isUsingLegacyFolder = False, tinaFolderPath = ''tina'',
      generatedClientJSFilePath = ''tina/__generated__/client.js'',
      generatedTypesDFilePath = ''tina/__generated__/types.d.ts'',
      generatedTypesJSFilePath = ''tina/__generated__/types.js'',
      generatedTypesTSFilePath = ''tina/__generated__/types.ts'',
      generatedClientTSFilePath = ''tina/__generated__/client.ts'',
      generatedQueriesFilePath = ''tina/__generated__/queries.gql'',
      generatedFragmentsFilePath = ''tina/__generated__/frags.gql'',
      generatedGraphQLGQLPath = ''tina/__generated__/schema.gql'',
      generatedSchemaJSONPath = ''tina/__generated__/_schema.json'',
      generatedLookupJSONPath = ''tina/__generated__/_lookup.json'',
      generatedGraphQLJSONPath = ''tina/__generated__/_graphql.json'',
      userQueriesAndFragmentsGlob = ''tina/queries/**/*.{graphql,gql}'',
      generatedQueriesAndFragmentsGlob = ''tina/__generated__/*.{graphql,gql}''\<rparr>"

text \<open>Generators for the sample: the types quote the queries document found on disk.\<close>

definition example_gens :: generators where
  "example_gens =
     \<lparr>generateTypes = (\<lambda>sch userGlob generatedGlob apiURL d.
          Inr (''// '' @ template (d ''tina/__generated__/queries.gql''))),
      printSchema = (\<lambda>sch. Inr sch),
      transform = (\<lambda>code. Inr code)\<rparr>"

definition example_codegen :: codegen where
  "example_codegen =
     \<lparr>configManager = example_manager, port = None, schema = ''type Query'',
      queryDoc = ''query q { x }'', fragDoc = ''fragment f on T { x }'', noSDK = False\<rparr>"

text \<open>A disk left behind by a run in the runtime mode, and an empty console.\<close>

definition stale_world :: world where
  "stale_world =
     \<lparr>disk = [''tina/__generated__/client.js'' \<mapsto> ''old client'',
              ''tina/__generated__/types.d.ts'' \<mapsto> ''old types'',
              ''tina/__generated__/types.js'' \<mapsto> ''old types''],
      console = []\<rparr>"

definition example_collaborators :: collaborators where
  "example_collaborators =
     \<lparr>processConfig = Inr example_manager,
      createAndInitializeDatabase = (\<lambda>cm. Inr ''db''),
      buildSchema = (\<lambda>db c. Inr \<lparr>built_tinaSchema = ''tina schema'',
                                     built_graphQLSchema = ''type Query'',
                                     built_queryDoc = ''query q { x }'',
                                     built_fragDoc = ''fragment f on T { x }''\<rparr>),
      requireJSON = (\<lambda>p. Inr ''{}''),
      getASTSchema = (\<lambda>db. Inr ''type Query''),
      indexContent = (\<lambda>db ts gs. Inr ()),
      pathJoin = (\<lambda>a b. a @ ''/'' @ b),
      gens = example_gens\<rparr>"

definition example_command :: command where
  "example_command = \<lparr>portNumber = Some 4001, verbose = False, noWatch = False, cmd_noSDK = False\<rparr>"

definition running_session :: session where
  "running_session = \<lparr>files = stale_world, trace = [], logger = [], exited = None\<rparr>"


definition unconfigured_codegen :: codegen where
  "unconfigured_codegen =
     example_codegen\<lparr>configManager := example_manager\<lparr>config := unconfigured\<rparr>\<rparr>"

definition nosdk_codegen :: codegen where
  "nosdk_codegen = example_codegen\<lparr>noSDK := True\<rparr>"

definition failing_schema :: collaborators where
  "failing_schema = example_collaborators\<lparr>buildSchema := (\<lambda>db c. Inl (Error ''schema error''))\<rparr>"

definition broken_config :: collaborators where
  "broken_config = example_collaborators\<lparr>processConfig := Inl (Error ''invalid config'')\<rparr>"




section \<open>Properties of the code generator\<close>

subsection \<open>Effects of the file operations\<close>

lemma disk_outputFile [simp]: "disk (outputFile p c w) = (disk w)(p \<mapsto> c)"
  by (simp add: outputFile_def)

lemma console_outputFile [simp]: "console (outputFile p c w) = console w"
  by (simp add: outputFile_def)

lemma disk_unlinkIfExists [simp]: "disk (unlinkIfExists p w) = (disk w)(p := None)"
  by (auto simp: unlinkIfExists_def)

lemma console_unlinkIfExists [simp]: "console (unlinkIfExists p w) = console w"
  by (simp add: unlinkIfExists_def)

lemma disk_maybeWarn [simp]: "disk (snd (maybeWarnFragmentSize p w)) = disk w"
  by (simp add: maybeWarnFragmentSize_def split: option.splits)

lemma fold_unlink_disk:
  "disk (fold unlinkIfExists ps w) = (\<lambda>p. if p \<in> set ps then None else disk w p)"
  by (induction ps arbitrary: w) (auto simp: fun_eq_iff)

lemma fold_unlink_console: "console (fold unlinkIfExists ps w) = console w"
  by (induction ps arbitrary: w) auto

lemma remove_is_fold:
  "removeGeneratedFilesIfExists cm w = fold unlinkIfExists (removed_paths cm) w"
  by (simp add: removeGeneratedFilesIfExists_def removed_paths_def Let_def)

lemma maybeWarn_written:
  "maybeWarnFragmentSize p (outputFile p c w) =
     (Inr (), (outputFile p c w)\<lparr>console := console w @ advisory c\<rparr>)"
  by (simp add: maybeWarnFragmentSize_def outputFile_def advisory_def)

lemma execute_typed:
  assumes "\<not> noSDK cg" and "getApiURL cg = Inr url"
    and "types_generated g cg url (docs_written cg (disk w)) = Inr t"
    and "printSchema g (schema cg) = Inr p"
    and "isUsingTs (configManager cg)"
  shows "fst (execute g cg w) = Inr url"
    and "disk (snd (execute g cg w)) =
           typed_written (configManager cg) (schema_doc p) (types_code t)
             (client_code url (token (config (configManager cg)))) (docs_written cg (disk w))"
  using assms
  by (simp_all add: execute_def genClient_def genTypes_def write_typed_def maybeWarn_written
      types_generated_def docs_written_def typed_written_def Let_def)

lemma execute_runtime:
  assumes "\<not> noSDK cg" and "getApiURL cg = Inr url"
    and "types_generated g cg url (docs_written cg (disk w)) = Inr t"
    and "printSchema g (schema cg) = Inr p"
    and "\<not> isUsingTs (configManager cg)"
    and "transform g (types_code t) = Inr js"
  shows "fst (execute g cg w) = Inr url"
    and "disk (snd (execute g cg w)) =
           runtime_written (configManager cg) (schema_doc p) (types_code t) js
             (client_code url (token (config (configManager cg)))) (docs_written cg (disk w))"
  using assms
  by (simp_all add: execute_def genClient_def genTypes_def write_runtime_def maybeWarn_written
      types_generated_def docs_written_def runtime_written_def Let_def)

lemma execute_returns:
  assumes "\<not> noSDK cg" and "fst (execute g cg w) = Inr url"
  shows "getApiURL cg = Inr url
         \<and> (\<exists>t p. types_generated g cg url (docs_written cg (disk w)) = Inr t
                  \<and> printSchema g (schema cg) = Inr p
                  \<and> (isUsingTs (configManager cg) \<or> (\<exists>js. transform g (types_code t) = Inr js)))"
  using assms
  by (auto simp add: execute_def genClient_def genTypes_def write_runtime_def maybeWarn_written
      types_generated_def docs_written_def Let_def split: sum.splits if_splits)


lemma example_distinct: "distinct (generated_paths example_manager)"
  by (simp add: generated_paths_def example_manager_def)

lemma example_url:
  "getApiURL example_codegen = Inr ''https://content.tinajs.io/1.4/content/abc123/github/main''"
  by (simp add: getApiURL_def example_codegen_def example_manager_def example_config_def
      TINA_HOST_def Let_def)

text \<open>
  Claim C6. After a completed run of \<open>execute\<close> with SDK generation enabled, the generated
  files present on disk are exactly those of the active mode: the queries, fragments and
  schema documents, and either the typed pair (types.ts, client.ts) or the runtime triple
  (types.d.ts, types.js, client.js); no file of the other mode remains. The eight generated
  paths are taken to be distinct.
\<close>

theorem execute_mode_exclusive:
  assumes "distinct (generated_paths cm)" and "cm = configManager cg"
    and "\<not> noSDK cg" and "fst (execute g cg w) = Inr url"
  shows "dom (disk (snd (execute g cg w))) \<inter> set (generated_paths cm) =
           {generatedQueriesFilePath cm, generatedFragmentsFilePath cm, generatedGraphQLGQLPath cm}
           \<union> (if isUsingTs cm
              then {generatedTypesTSFilePath cm, generatedClientTSFilePath cm}
              else {generatedTypesDFilePath cm, generatedTypesJSFilePath cm,
                    generatedClientJSFilePath cm})"
proof -
  from execute_returns [OF assms(3,4)] obtain t p where
    u: "getApiURL cg = Inr url" and
    t: "types_generated g cg url (docs_written cg (disk w)) = Inr t" and
    p: "printSchema g (schema cg) = Inr p" and
    j: "isUsingTs (configManager cg) \<or> (\<exists>js. transform g (types_code t) = Inr js)"
    by blast
  show ?thesis
  proof (cases "isUsingTs cm")
    case True
    with assms(2) have ts: "isUsingTs (configManager cg)" by simp
    show ?thesis
      using assms(1) True
      unfolding execute_typed(2) [OF assms(3) u t p ts] assms(2) [symmetric]
      by (auto simp: typed_written_def docs_written_def generated_paths_def assms(2) [symmetric])
  next
    case False
    with assms(2) have ts: "\<not> isUsingTs (configManager cg)" by simp
    with j obtain js where js: "transform g (types_code t) = Inr js" by blast
    show ?thesis
      using assms(1) False
      unfolding execute_runtime(2) [OF assms(3) u t p ts js] assms(2) [symmetric]
      by (auto simp: runtime_written_def docs_written_def generated_paths_def assms(2) [symmetric])
  qed
qed


theorem execute_mode_exclusive_witness:
  "dom (disk (snd (execute example_gens example_codegen stale_world)))
     \<inter> set (generated_paths example_manager) =
   {''tina/__generated__/queries.gql'', ''tina/__generated__/frags.gql'',
    ''tina/__generated__/schema.gql'', ''tina/__generated__/types.ts'',
    ''tina/__generated__/client.ts''}"
proof -
  have a: "example_manager = configManager example_codegen"
    by (simp add: example_codegen_def)
  have b: "\<not> noSDK example_codegen"
    by (simp add: example_codegen_def)
  have c: "fst (execute example_gens example_codegen stale_world)
             = Inr ''https://content.tinajs.io/1.4/content/abc123/github/main''"
    by (rule execute_typed(1) [OF b example_url])
       (simp_all add: types_generated_def example_gens_def example_codegen_def example_manager_def)
  show ?thesis
    using execute_mode_exclusive [OF example_distinct a b c]
    by (auto simp: example_manager_def)
qed








text \<open>
  Claim C5. With no port and no override URL, and at least one of branch, clientId and token
  absent, \<open>getApiURL\<close> throws an error whose message lists exactly the absent fields in
  the order branch, clientId, token; with a port, an override, or all three present it
  returns a URL.
\<close>

theorem getApiURL_missing_fields:
  assumes "c = config (configManager cg)"
  shows "(\<not> truthy_port (port cg) \<and> \<not> truthy (contentApiUrlOverride c)
            \<and> (\<not> truthy (branch c) \<or> \<not> truthy (clientId c) \<or> \<not> truthy (token c))
          \<longrightarrow> getApiURL cg = Inl (Error
                (''Client not configured properly. Missing ''
                 @ join '', '' (map fst (filter (\<lambda>f. \<not> truthy (snd f))
                      [(''branch'', branch c), (''clientId'', clientId c), (''token'', token c)]))
                 @ ''. Please visit https://tina.io/docs/tina-cloud/connecting-site/ for more information'')))
       \<and> (truthy_port (port cg) \<or> truthy (contentApiUrlOverride c)
            \<or> (truthy (branch c) \<and> truthy (clientId c) \<and> truthy (token c))
          \<longrightarrow> (\<exists>url. getApiURL cg = Inr url))"
  using assms by (simp add: getApiURL_def missing_fields_def not_configured_def Let_def)

theorem getApiURL_missing_fields_witness:
  "getApiURL unconfigured_codegen = Inl (Error
     ''Client not configured properly. Missing branch, token. Please visit https://tina.io/docs/tina-cloud/connecting-site/ for more information'')
   \<and> (\<exists>url. getApiURL example_codegen = Inr url)"
proof -
  have a: "unconfigured = config (configManager unconfigured_codegen)"
    by (simp add: unconfigured_codegen_def)
  have b: "example_config = config (configManager example_codegen)"
    by (simp add: example_codegen_def example_manager_def)
  have c: "port unconfigured_codegen = None"
    by (simp add: unconfigured_codegen_def example_codegen_def)
  from getApiURL_missing_fields [OF a] getApiURL_missing_fields [OF b] c
  show ?thesis
    by (simp add: unconfigured_def example_config_def)
qed

lemma execute_without_sdk:
  assumes "noSDK cg"
  shows "execute g cg w =
           (case getApiURL cg of
              Inl e \<Rightarrow> (Inl e, w)
            | Inr apiURL \<Rightarrow>
                (Inr apiURL,
                 w\<lparr>disk := (\<lambda>p. if p \<in> set (removed_paths (configManager cg)) then None
                                else disk w p)\<rparr>))"
proof (cases "getApiURL cg")
  case (Inl e)
  then show ?thesis by (simp add: execute_def)
next
  case (Inr apiURL)
  let ?w = "removeGeneratedFilesIfExists (configManager cg) w"
  have "?w = w\<lparr>disk := (\<lambda>p. if p \<in> set (removed_paths (configManager cg)) then None
                            else disk w p)\<rparr>"
    by (simp add: remove_is_fold fold_unlink_disk fold_unlink_console)
  with Inr assms show ?thesis by (simp add: execute_def)
qed

text \<open>
  Claim C9. With \<open>noSDK\<close> set, \<open>execute\<close> first resolves the API URL; when that throws,
  the error is raised; otherwise the seven generated files are removed from the disk, no
  file is written, the console is untouched and the URL is returned.
\<close>

theorem execute_noSDK:
  assumes "noSDK cg"
  shows "execute g cg w =
           (case getApiURL cg of
              Inl e \<Rightarrow> (Inl e, w)
            | Inr apiURL \<Rightarrow>
                (Inr apiURL,
                 w\<lparr>disk := (\<lambda>p. if p \<in> set (removed_paths (configManager cg)) then None
                                else disk w p)\<rparr>))"
  using assms by (rule execute_without_sdk)

theorem execute_noSDK_witness:
  "fst (execute example_gens nosdk_codegen stale_world)
     = Inr ''https://content.tinajs.io/1.4/content/abc123/github/main''
   \<and> disk (snd (execute example_gens nosdk_codegen stale_world)) = Map.empty"
proof -
  have a: "noSDK nosdk_codegen"
    by (simp add: nosdk_codegen_def)
  have u: "getApiURL nosdk_codegen = Inr ''https://content.tinajs.io/1.4/content/abc123/github/main''"
    by (simp add: getApiURL_def nosdk_codegen_def example_codegen_def example_manager_def
        example_config_def TINA_HOST_def Let_def)
  show ?thesis
    unfolding execute_noSDK [OF a, of example_gens stale_world] u
    by (auto simp: fun_eq_iff removed_paths_def nosdk_codegen_def example_codegen_def
        example_manager_def stale_world_def)
qed

subsection \<open>Running the generator again\<close>















section \<open>Properties of the dev command\<close>

subsection \<open>The reconcile and its order\<close>













lemma string_of_4001: "string_of_int 4001 = ''4001''"
  by code_simp

lemma example_local_url:
  "getApiURL \<lparr>configManager = example_manager, port = Some 4001, schema = sch,
              queryDoc = q, fragDoc = f, noSDK = False\<rparr> = Inr ''http://localhost:4001/graphql''"
  by (simp add: getApiURL_def example_manager_def example_config_def Let_def string_of_4001)

lemma example_local_execute:
  "fst (execute example_gens \<lparr>configManager = example_manager, port = Some 4001, schema = sch,
              queryDoc = q, fragDoc = f, noSDK = False\<rparr> w) = Inr ''http://localhost:4001/graphql''"
  by (rule execute_typed(1) [OF _ example_local_url])
     (simp_all add: types_generated_def example_gens_def example_manager_def)

lemma example_layout:
  "\<not> isUsingLegacyFolder example_manager"
  "isUsingTs example_manager"
  by (simp_all add: example_manager_def)

lemma example_setup:
  "fst (setup_dev example_collaborators example_command running_session)
     = Returned (''http://localhost:4001/graphql'', ''db'')"
  "trace (snd (setup_dev example_collaborators example_command running_session))
     = [ProcessConfig, CreateDatabase, BuildSchema, PersistLock, GetASTSchema, CodegenExecute,
        WatchQueries, IndexContent]"
  by (simp_all add: setup_dev_def run_codegen_def persist_lock_def began_def Let_def
      example_collaborators_def example_command_def running_session_def example_local_execute
      example_layout)










text \<open>
  Claim C4, as the code has it. A reconcile runs its steps in the order: load the
  configuration, create the database, build the schema, persist the lock file (unless the
  legacy layout is used), read the schema back, run the code generator (which writes the
  artifacts), register the query watcher (unless watching is off), and only then the full
  content index. A reconcile that returns has run all of them; one that throws at a step has
  run exactly the steps up to that one; a configuration that fails to load ends the process
  after the first step.
\<close>

theorem setup_order:
  "(case processConfig x of
      Inl e \<Rightarrow>
        fst (setup_dev x cmd s) = Exited 1
        \<and> trace (snd (setup_dev x cmd s)) = trace s @ [ProcessConfig]
    | Inr cm \<Rightarrow>
        (case fst (setup_dev x cmd s) of
           Returned r \<Rightarrow>
             trace (snd (setup_dev x cmd s))
               = trace s @ reconcile_steps (isUsingLegacyFolder cm) (noWatch cmd)
         | Thrown st e \<Rightarrow>
             trace (snd (setup_dev x cmd s))
               = trace s @ steps_until st (reconcile_steps (isUsingLegacyFolder cm) (noWatch cmd))
         | Exited n \<Rightarrow> False))
   \<and> runs_before CodegenExecute IndexContent (reconcile_steps legacy nowatch)
   \<and> \<not> runs_before IndexContent CodegenExecute (reconcile_steps legacy nowatch)"
  by (simp add: setup_dev_def run_codegen_def persist_lock_def began_def Let_def
      reconcile_steps_def steps_until_def runs_before_def split: sum.splits)

theorem setup_order_witness:
  "fst (setup_dev failing_schema example_command running_session)
     = Thrown BuildSchema (Error ''schema error'')
   \<and> trace (snd (setup_dev failing_schema example_command running_session))
     = [ProcessConfig, CreateDatabase, BuildSchema]"
proof -
  have pc: "processConfig failing_schema = Inr example_manager"
    by (simp add: failing_schema_def example_collaborators_def)
  have th: "fst (setup_dev failing_schema example_command running_session)
              = Thrown BuildSchema (Error ''schema error'')"
    by (simp add: setup_dev_def Let_def failing_schema_def example_collaborators_def)
  from setup_order [of failing_schema example_command running_session]
  show ?thesis
    unfolding pc th
    by (simp add: reconcile_steps_def steps_until_def running_session_def example_layout)
qed

theorem index_after_codegen_counterexample:
  "fst (setup_dev example_collaborators example_command running_session)
     = Returned (''http://localhost:4001/graphql'', ''db'')
   \<and> trace (snd (setup_dev example_collaborators example_command running_session))
     = [ProcessConfig, CreateDatabase, BuildSchema, PersistLock, GetASTSchema, CodegenExecute,
        WatchQueries, IndexContent]
   \<and> \<not> runs_before IndexContent CodegenExecute
         (trace (snd (setup_dev example_collaborators example_command running_session)))"
  by (simp add: example_setup runs_before_def)

subsection \<open>The change handler of the server watcher\<close>

lemma not_marker_config: "\<not> generated_marker ''tina/config.ts''"
  by (simp add: generated_marker_def includes_str_def sublist_code)

text \<open>
  An error that \<open>setup\<close> throws reaches the \<open>catch\<close> of the change handler: its message
  is logged and the process keeps running.
\<close>

lemma thrown_error_swallowed:
  assumes "\<not> generated_marker changedPath"
    and "setup_dev x cmd s = (Thrown st e, s')"
  shows "on_server_change x cmd changedPath s = s'\<lparr>logger := logger s' @ [LoggerError (message e)]\<rparr>"
    and "exited (on_server_change x cmd changedPath s) = exited s"
  using assms
  by (auto simp add: on_server_change_def generated_marker_def setup_dev_def run_codegen_def
      persist_lock_def began_def Let_def split: sum.splits if_splits)

text \<open>
  Claim C3. An error raised during a re-reconcile that a config-file change triggers is to be
  reported and swallowed, the process running on. The code does so for an error of the
  schema build, but not for a configuration that fails to load: in a running session, a
  change of \<open>tina/config.ts\<close> while \<open>processConfig\<close> throws leaves the files as they were,
  logs the start-up failure message and the error, and ends the process with exit code 1.
\<close>

theorem config_error_exits:
  "\<not> generated_marker ''tina/config.ts''
   \<and> exited running_session = None
   \<and> processConfig broken_config = Inl (Error ''invalid config'')
   \<and> exited (on_server_change broken_config example_command ''tina/config.ts'' running_session)
       = Some 1
   \<and> logger (on_server_change broken_config example_command ''tina/config.ts'' running_session)
       = [LoggerError ''Unable to start dev server, please fix your Tina config and try again'',
          LoggerError ''invalid config'']
   \<and> files (on_server_change broken_config example_command ''tina/config.ts'' running_session)
       = files running_session
   \<and> exited (on_server_change failing_schema example_command ''tina/config.ts'' running_session)
       = None
   \<and> logger (on_server_change failing_schema example_command ''tina/config.ts'' running_session)
       = [LoggerError ''schema error'']"
proof -
  have th: "setup_dev failing_schema example_command running_session
              = (Thrown BuildSchema (Error ''schema error''),
                 began BuildSchema (began CreateDatabase (began ProcessConfig running_session)))"
    by (simp add: setup_dev_def Let_def failing_schema_def example_collaborators_def)
  have br: "on_server_change broken_config example_command ''tina/config.ts'' running_session
              = (began ProcessConfig running_session)
                  \<lparr>logger := logger (began ProcessConfig running_session)
                     @ config_failure example_command (Error ''invalid config''),
                   exited := Some 1\<rparr>"
    using not_marker_config
    by (simp add: on_server_change_def generated_marker_def setup_dev_def Let_def
        broken_config_def example_collaborators_def)
  show ?thesis
    using not_marker_config thrown_error_swallowed [OF not_marker_config th]
    unfolding br
    by (simp add: began_def running_session_def config_failure_def example_command_def
        broken_config_def example_collaborators_def)
qed

text \<open>
  Claim C1, as the code has it. A change reported by the server watcher whose path contains
  one of the three markers is ignored: the session is unchanged, so no reconcile step runs
  and nothing is indexed or written. The handlers of the content and query watchers do not
  look at the path: whatever it contains, a content change or a content add after ready is
  indexed, a content removal is deleted from the index, and a query event calls the callback.
\<close>

theorem marker_change_ignored:
  "(generated_marker changedPath \<longrightarrow> on_server_change x cmd changedPath s = s)
   \<and> calls (watchContentFiles_on rel (Change p) wt) = calls wt @ [IndexContentByPaths [rel p]]
   \<and> calls (watchContentFiles_on rel (Unlink p) wt) = calls wt @ [DeleteContentByPaths [rel p]]
   \<and> (ready wt \<longrightarrow>
        calls (watchContentFiles_on rel (Add p) wt) = calls wt @ [IndexContentByPaths [rel p]])
   \<and> (e \<noteq> Ready \<longrightarrow> calls (watchQueries_on e wt) = calls wt @ [Callback])"
  by (cases e) (auto simp: on_server_change_def generated_marker_def)

theorem marker_change_ignored_witness:
  "generated_marker ''tina/__generated__/types.ts''
   \<and> on_server_change example_collaborators example_command ''tina/__generated__/types.ts''
        running_session = running_session
   \<and> calls (watchContentFiles_on (\<lambda>p. p) (Add ''content/posts/__generated__/a.md'')
         \<lparr>ready = True, calls = []\<rparr>)
       = [IndexContentByPaths [''content/posts/__generated__/a.md'']]
   \<and> calls (watchQueries_on (Unlink ''tina/queries/__generated__/q.gql'')
         \<lparr>ready = True, calls = []\<rparr>) = [Callback]"
proof -
  have m: "generated_marker ''tina/__generated__/types.ts''"
    by (simp add: generated_marker_def includes_str_def sublist_code)
  have r: "ready \<lparr>ready = True, calls = []\<rparr>"
    by simp
  have u: "Unlink ''tina/queries/__generated__/q.gql'' \<noteq> Ready"
    by simp
  from marker_change_ignored [where changedPath = "''tina/__generated__/types.ts''"
      and x = example_collaborators and cmd = example_command and s = running_session
      and rel = "\<lambda>p. p" and p = "''content/posts/__generated__/a.md''"
      and wt = "\<lparr>ready = True, calls = []\<rparr>"
      and e = "Unlink ''tina/queries/__generated__/q.gql''"] m r u
  show ?thesis by simp
qed

theorem content_marker_counterexample:
  "generated_marker ''content/posts/__generated__/a.md''
   \<and> calls (watchContentFiles_on (\<lambda>p. p) (Change ''content/posts/__generated__/a.md'')
         \<lparr>ready = True, calls = []\<rparr>)
       = [IndexContentByPaths [''content/posts/__generated__/a.md'']]
   \<and> generated_marker ''tina/queries/__generated__/q.gql''
   \<and> calls (watchQueries_on (Change ''tina/queries/__generated__/q.gql'')
         \<lparr>ready = True, calls = []\<rparr>) = [Callback]"
  by (simp add: generated_marker_def includes_str_def sublist_code)

subsection \<open>The content and query watchers\<close>

lemma early_adds:
  assumes "\<not> ready wt" and "\<forall>e \<in> set events. is_add e"
  shows "deliver (watchContentFiles_on rel) events wt = wt"
  using assms unfolding deliver_def
  by (induction events) (auto simp: is_add_def split: fs_event.splits)

text \<open>
  Claim C2, as the code has it. In the content-files scope, add events delivered before the
  ready signal are dropped: the watcher makes no call and stays as it was. Change and remove
  events of that scope reach the indexer whether or not the watcher is ready.
\<close>

theorem early_add_dropped:
  "(\<not> ready wt \<longrightarrow> (\<forall>e \<in> set events. is_add e)
      \<longrightarrow> deliver (watchContentFiles_on rel) events wt = wt)
   \<and> calls (watchContentFiles_on rel (Change p) wt) = calls wt @ [IndexContentByPaths [rel p]]
   \<and> calls (watchContentFiles_on rel (Unlink p) wt) = calls wt @ [DeleteContentByPaths [rel p]]"
  by (simp add: early_adds)

theorem early_add_dropped_witness:
  "\<not> ready new_watcher
   \<and> deliver (watchContentFiles_on (\<lambda>p. p))
         [Add ''content/posts/a.md'', Add ''content/posts/b.md''] new_watcher = new_watcher"
proof -
  have a: "\<not> ready new_watcher" by (simp add: new_watcher_def)
  have b: "\<forall>e \<in> set [Add ''content/posts/a.md'', Add ''content/posts/b.md'']. is_add e"
    by (simp add: is_add_def)
  from early_add_dropped [where wt = new_watcher and rel = "\<lambda>p. p"
      and events = "[Add ''content/posts/a.md'', Add ''content/posts/b.md'']"] a b
  show ?thesis by simp
qed

theorem early_event_counterexample:
  "\<not> ready new_watcher
   \<and> calls (watchContentFiles_on (\<lambda>p. p) (Change ''content/posts/a.md'') new_watcher)
       = [IndexContentByPaths [''content/posts/a.md'']]
   \<and> calls (watchContentFiles_on (\<lambda>p. p) (Unlink ''content/posts/a.md'') new_watcher)
       = [DeleteContentByPaths [''content/posts/a.md'']]
   \<and> calls (watchQueries_on (Add ''tina/queries/q.gql'') new_watcher) = [Callback]"
  by (simp add: new_watcher_def)

end
